theory Spec2Isabelle
  imports Main "HOL-Library.Word"
begin

section \<open>The operating system as seen by pq.c\<close>

text \<open>
  pq.c is a sequential wrapper over a handful of system and library calls. Each call
  returns an \<open>int\<close> (0 on success, -1 on failure) and, on failure, stores the reason in
  the global \<open>errno\<close>. The model keeps \<open>errno\<close>, the calls issued so far and the text
  written to the two output streams in a \<open>world\<close>; what each call answers is given by
  an \<open>os\<close> record, so that every theorem holds for every behaviour of the kernel.
\<close>

text \<open>The two reason codes the program inspects, with their Linux values.\<close>

definition EBUSY :: int where
  "EBUSY = 16"

definition EEXIST :: int where
  "EEXIST = 17"

text \<open>\<open>#define MOUNT_POINT "/dev/mqueue"\<close>\<close>

definition MOUNT_POINT :: string where
  "MOUNT_POINT = ''/dev/mqueue''"

text \<open>\<open>struct dirent\<close>: the two fields the program reads. \<open>d_type\<close> is an unsigned char.\<close>

record dirent =
  d_type :: "8 word"
  d_name :: string

definition DT_DIR :: "8 word" where
  "DT_DIR = 4"

text \<open>\<open>struct mq_attr\<close>: four fields of type \<open>long\<close> (64 bits on Linux LP64).\<close>

record mq_attr =
  mq_flags :: "64 word"
  mq_maxmsg :: "64 word"
  mq_msgsize :: "64 word"
  mq_curmsgs :: "64 word"

text \<open>The outcome of a call that returns 0 or -1: success, or failure with its errno.\<close>

datatype sysres = Ok | Err int

text \<open>The calls the program can issue, with their arguments.\<close>

datatype syscall =
    Mkdir string nat
  | Mount string string string
  | Umount string
  | Rmdir string
  | Opendir string
  | Readdir
  | Closedir
  | MqOpen string
  | MqGetattr int
  | MqClose int
  | MqUnlink string

text \<open>
  What the system answers. \<open>opendir_r\<close> gives the entries that successive \<open>readdir\<close>
  calls yield; \<open>mq_open_r\<close> gives the descriptor (a natural number, so never negative).
\<close>

record os =
  mkdir_r :: "string \<Rightarrow> sysres"
  mount_r :: "string \<Rightarrow> sysres"
  umount_r :: "string \<Rightarrow> sysres"
  rmdir_r :: "string \<Rightarrow> sysres"
  opendir_r :: "string \<Rightarrow> int + dirent list"
  closedir_r :: sysres
  mq_open_r :: "string \<Rightarrow> int + nat"
  mq_getattr_r :: "int \<Rightarrow> int + mq_attr"
  mq_close_r :: "int \<Rightarrow> sysres"
  mq_unlink_r :: "string \<Rightarrow> sysres"
  strerror :: "int \<Rightarrow> string"

record world =
  errno :: int
  calls :: "syscall list"
  stdout :: string
  stderr :: string

datatype stream = Stdout | Stderr

definition fprintf :: "stream \<Rightarrow> string \<Rightarrow> world \<Rightarrow> world" where
  "fprintf f s w =
     (case f of
        Stdout \<Rightarrow> w\<lparr>stdout := stdout w @ s\<rparr>
      | Stderr \<Rightarrow> w\<lparr>stderr := stderr w @ s\<rparr>)"

text \<open>A call is recorded, and a failing call sets \<open>errno\<close>; a successful one leaves it alone.\<close>

definition sys :: "syscall \<Rightarrow> sysres \<Rightarrow> world \<Rightarrow> int \<times> world" where
  "sys c r w =
     (case r of
        Ok \<Rightarrow> (0, w\<lparr>calls := calls w @ [c]\<rparr>)
      | Err e \<Rightarrow> (- 1, w\<lparr>errno := e, calls := calls w @ [c]\<rparr>))"

definition mkdir :: "os \<Rightarrow> string \<Rightarrow> nat \<Rightarrow> world \<Rightarrow> int \<times> world" where
  "mkdir k path mode w = sys (Mkdir path mode) (mkdir_r k path) w"

definition mount :: "os \<Rightarrow> string \<Rightarrow> string \<Rightarrow> string \<Rightarrow> world \<Rightarrow> int \<times> world" where
  "mount k src tgt fstype w = sys (Mount src tgt fstype) (mount_r k tgt) w"

definition umount :: "os \<Rightarrow> string \<Rightarrow> world \<Rightarrow> int \<times> world" where
  "umount k tgt w = sys (Umount tgt) (umount_r k tgt) w"

definition rmdir :: "os \<Rightarrow> string \<Rightarrow> world \<Rightarrow> int \<times> world" where
  "rmdir k path w = sys (Rmdir path) (rmdir_r k path) w"

text \<open>\<open>opendir\<close> returns the stream (here: the entries still to be read) or NULL.\<close>

definition opendir :: "os \<Rightarrow> string \<Rightarrow> world \<Rightarrow> dirent list option \<times> world" where
  "opendir k path w =
     (case opendir_r k path of
        Inl e \<Rightarrow> (None, w\<lparr>errno := e, calls := calls w @ [Opendir path]\<rparr>)
      | Inr ents \<Rightarrow> (Some ents, w\<lparr>calls := calls w @ [Opendir path]\<rparr>))"

definition closedir :: "os \<Rightarrow> world \<Rightarrow> int \<times> world" where
  "closedir k w = sys Closedir (closedir_r k) w"

text \<open>\<open>mq_open\<close> returns the descriptor, or -1 with \<open>errno\<close> set.\<close>

definition mq_open :: "os \<Rightarrow> string \<Rightarrow> world \<Rightarrow> int \<times> world" where
  "mq_open k name w =
     (case mq_open_r k name of
        Inl e \<Rightarrow> (- 1, w\<lparr>errno := e, calls := calls w @ [MqOpen name]\<rparr>)
      | Inr fd \<Rightarrow> (int fd, w\<lparr>calls := calls w @ [MqOpen name]\<rparr>))"

text \<open>\<open>mq_getattr\<close> returns 0 and fills the attribute structure, or -1 with \<open>errno\<close> set.\<close>

definition mq_getattr :: "os \<Rightarrow> int \<Rightarrow> world \<Rightarrow> int \<times> mq_attr option \<times> world" where
  "mq_getattr k fd w =
     (case mq_getattr_r k fd of
        Inl e \<Rightarrow> (- 1, None, w\<lparr>errno := e, calls := calls w @ [MqGetattr fd]\<rparr>)
      | Inr a \<Rightarrow> (0, Some a, w\<lparr>calls := calls w @ [MqGetattr fd]\<rparr>))"

definition mq_close :: "os \<Rightarrow> int \<Rightarrow> world \<Rightarrow> int \<times> world" where
  "mq_close k fd w = sys (MqClose fd) (mq_close_r k fd) w"

definition mq_unlink :: "os \<Rightarrow> string \<Rightarrow> world \<Rightarrow> int \<times> world" where
  "mq_unlink k name w = sys (MqUnlink name) (mq_unlink_r k name) w"

section \<open>Formatting\<close>

definition NL :: string where
  "NL = [CHR 0x0A]"

definition digit :: "nat \<Rightarrow> char" where
  "digit d = char_of (48 + d)"

fun show_nat :: "nat \<Rightarrow> string" where
  "show_nat n = (if n < 10 then [digit n] else show_nat (n div 10) @ [digit (n mod 10)])"

text \<open>The conversion \<open>%ld\<close>: a \<open>long\<close> in signed decimal.\<close>

definition fmt_ld :: "64 word \<Rightarrow> string" where
  "fmt_ld x = (if sint x < 0 then ''-'' @ show_nat (nat (- sint x)) else show_nat (nat (sint x)))"

section \<open>pq.c\<close>

subsection \<open>ensurePosixQueueFileSystemMounted\<close>

text \<open>The mode \<open>0644\<close> is octal: 420.\<close>

definition ensurePosixQueueFileSystemMounted :: "os \<Rightarrow> world \<Rightarrow> bool \<times> world" where
  "ensurePosixQueueFileSystemMounted k w0 =
     (let (res, w1) = mkdir k MOUNT_POINT 420 w0 in
      if res \<noteq> 0 \<and> errno w1 \<noteq> EEXIST then
        (False, fprintf Stderr
           (''Error: Couldn't create posix filesystem mount point '' @ MOUNT_POINT
              @ '' ('' @ strerror k (errno w1) @ '')'' @ NL) w1)
      else
        let (res, w2) = mount k ''none'' MOUNT_POINT ''mqueue'' w1 in
        if res \<noteq> 0 \<and> errno w2 \<noteq> EBUSY then
          (False, fprintf Stderr
             (''Error: Couldn't mount the posix queue filesystem (''
                @ strerror k (errno w2) @ '')'' @ NL) w2)
        else (True, w2))"

subsection \<open>unmountPosixQueue\<close>

definition unmountPosixQueue :: "os \<Rightarrow> world \<Rightarrow> bool \<times> world" where
  "unmountPosixQueue k w0 =
     (let (res, w1) = umount k MOUNT_POINT w0 in
      if res \<noteq> 0 \<and> errno w1 = EBUSY then
        (False, fprintf Stderr
           (''Error: Couldn't unmount the posix queue filesystem (''
              @ strerror k (errno w1) @ '')'' @ NL) w1)
      else
        let (res, w2) = rmdir k MOUNT_POINT w1 in
        if res \<noteq> 0 \<and> errno w2 \<noteq> EBUSY then
          (False, fprintf Stderr
             (''Error: Couldn't remove posix filesystem mount point '' @ MOUNT_POINT
                @ '' ('' @ strerror k (errno w2) @ '')'' @ NL) w2)
        else (True, w2))"

subsection \<open>listPosixQueues\<close>

text \<open>
  \<open>ent->d_name[0]\<close>: the first byte of a NUL-terminated string, which is the
  terminator itself when the name is empty.
\<close>

definition first_char :: "string \<Rightarrow> char" where
  "first_char s = (case s of [] \<Rightarrow> CHR 0x00 | c # _ \<Rightarrow> c)"

text \<open>
  \<open>readdir\<close> hands out the next entry of the stream, or NULL when none is left.
\<close>

definition readdir :: "dirent list \<Rightarrow> world \<Rightarrow> dirent option \<times> dirent list \<times> world" where
  "readdir d w =
     (case d of
        [] \<Rightarrow> (None, [], w\<lparr>calls := calls w @ [Readdir]\<rparr>)
      | ent # rest \<Rightarrow> (Some ent, rest, w\<lparr>calls := calls w @ [Readdir]\<rparr>))"

text \<open>
  The \<open>while ((ent = readdir(d)) != NULL)\<close> loop. It ends because every successful
  \<open>readdir\<close> leaves a shorter stream. \<open>count\<close> is a C \<open>int\<close>: 32 bits, here with
  wrap-around.
\<close>

function readdir_loop :: "dirent list \<Rightarrow> 32 word \<Rightarrow> world \<Rightarrow> 32 word \<times> world" where
  "readdir_loop d count w =
     (case readdir d w of
        (None, d', w') \<Rightarrow> (count, w')
      | (Some ent, d', w') \<Rightarrow>
          if d_type ent = DT_DIR \<or> first_char (d_name ent) = CHR ''.'' then
            readdir_loop d' count w'
          else
            readdir_loop d' (count + 1) (fprintf Stdout (d_name ent @ NL) w'))"
  by pat_completeness auto
termination
  by (relation "measure (\<lambda>(d, count, w). length d)")
     (auto simp: readdir_def split: list.splits)

definition listPosixQueues :: "os \<Rightarrow> world \<Rightarrow> bool \<times> world" where
  "listPosixQueues k w0 =
     (case opendir k MOUNT_POINT w0 of
        (None, w1) \<Rightarrow>
          (False, fprintf Stderr
             (''Error: Couldn't read from the posix queue filesystem'' @ NL) w1)
      | (Some d, w1) \<Rightarrow>
          let (count, w2) = readdir_loop d 0 w1;
              w3 = (if count = 0 then fprintf Stdout (''(No posix queues)'' @ NL) w2 else w2);
              (res, w4) = closedir k w3
          in (True, w4))"

subsection \<open>printPosixQueueInfo\<close>

text \<open>
  \<open>if (mq_getattr(queue_fd, &attr))\<close> tests the return value, which is non-zero exactly
  when no attributes were stored: the two branches are the two cases of the option.
  The value of \<open>mq_close\<close> is dropped on both paths.
\<close>

definition printPosixQueueInfo :: "os \<Rightarrow> string \<Rightarrow> world \<Rightarrow> bool \<times> world" where
  "printPosixQueueInfo k queue_name w0 =
     (let (queue_fd, w1) = mq_open k queue_name w0 in
      if queue_fd < 0 then
        (False, fprintf Stderr
           (''Error: Couldn't open queue '' @ queue_name
              @ '' ('' @ strerror k (errno w1) @ '')'' @ NL) w1)
      else
        case mq_getattr k queue_fd w1 of
          (res, None, w2) \<Rightarrow>
            let w3 = fprintf Stderr
                       (''Error: Failed to query queue '' @ queue_name
                          @ '' for its parameters ('' @ strerror k (errno w2) @ '')'' @ NL) w2;
                (res, w4) = mq_close k queue_fd w3
            in (False, w4)
        | (res, Some attr, w2) \<Rightarrow>
            let w3 = fprintf Stdout
                       (''flags   '' @ fmt_ld (mq_flags attr) @ NL
                          @ ''maxmsg  '' @ fmt_ld (mq_maxmsg attr) @ NL
                          @ ''msgsize '' @ fmt_ld (mq_msgsize attr) @ NL
                          @ ''curmsgs '' @ fmt_ld (mq_curmsgs attr) @ NL) w2;
                (res, w4) = mq_close k queue_fd w3
            in (True, w4))"

subsection \<open>unlinkPosixQueue\<close>

definition unlinkPosixQueue :: "os \<Rightarrow> string \<Rightarrow> world \<Rightarrow> bool \<times> world" where
  "unlinkPosixQueue k queue_name w0 =
     (let (res, w1) = mq_unlink k queue_name w0 in
      if res \<noteq> 0 then
        (False, fprintf Stderr
           (''Error: Failed unlink queue '' @ queue_name
              @ '' ('' @ strerror k (errno w1) @ '')'' @ NL) w1)
      else (True, w1))"

subsection \<open>usage and main\<close>

definition usage :: "stream \<Rightarrow> string \<Rightarrow> world \<Rightarrow> world" where
  "usage f progname w =
     fprintf f
       (''Usage: $ sudo '' @ progname
          @ '' { ls | stat /<queue-name> | unlink /<queue-name> | umount }'' @ NL) w"

text \<open>The three identical blocks of \<open>main\<close> that report a wrong invocation.\<close>

definition invalid_usage :: "string list \<Rightarrow> world \<Rightarrow> int \<times> world" where
  "invalid_usage argv w =
     (let progname = (if int (length argv) > 0 then argv ! 0 else ''pq'');
          w1 = fprintf Stderr (''Error: Invalid usage'' @ NL) w;
          w2 = usage Stderr progname w1
      in (- 1, w2))"

definition ret :: "bool \<times> world \<Rightarrow> int \<times> world" where
  "ret r = (if fst r then 0 else - 1, snd r)"

text \<open>\<open>argc\<close> is the length of \<open>argv\<close>; \<open>strcmp\<close> returning 0 is equality of strings.\<close>

definition main :: "os \<Rightarrow> string list \<Rightarrow> world \<Rightarrow> int \<times> world" where
  "main k argv w0 =
     (let argc = int (length argv) in
      if argc < 2 then invalid_usage argv w0
      else
        let (ok, w1) = ensurePosixQueueFileSystemMounted k w0 in
        if \<not> ok then (- 1, w1)
        else if argv ! 1 = ''ls'' then ret (listPosixQueues k w1)
        else if argv ! 1 = ''umount'' then ret (unmountPosixQueue k w1)
        else if argv ! 1 = ''stat'' then
          (if argc < 3 then invalid_usage argv w1
           else let queue_name = argv ! 2 in ret (printPosixQueueInfo k queue_name w1))
        else if argv ! 1 = ''unlink'' then
          (if argc < 3 then invalid_usage argv w1
           else let queue_name = argv ! 2 in ret (unlinkPosixQueue k queue_name w1))
        else
          (- 1, fprintf Stderr
                  (''Error: Invalid action '' @ [CHR 0x22] @ argv ! 1 @ [CHR 0x22] @ NL) w1))"

section \<open>The listing as the specification words it\<close>

text \<open>
  The specification of List: drop the sub-directories and the entries whose name begins
  with the hidden-file marker, emit each remaining name on a line of its own, and emit a
  placeholder when nothing remains. These two definitions follow those words, not the
  loop; the loop is compared with them below.
\<close>

definition spec_listed :: "dirent \<Rightarrow> bool" where
  "spec_listed e = (d_type e \<noteq> DT_DIR \<and> take 1 (d_name e) \<noteq> ''.'')"

definition spec_list_output :: "dirent list \<Rightarrow> string" where
  "spec_list_output ents =
     (let names = map d_name (filter spec_listed ents)
      in if names = [] then ''(No posix queues)'' @ NL else concat (map (\<lambda>n. n @ NL) names))"

section \<open>Concrete runs\<close>

text \<open>
  The inputs at which the theorems below are evaluated. \<open>os_mounted\<close> is a system where
  the mount point exists and is mounted, with two queues, one hidden file and one
  sub-directory; the others differ from it in one answer.
\<close>

definition w_init :: world where
  "w_init = \<lparr>errno = 0, calls = [], stdout = [], stderr = []\<rparr>"

definition strerror_sample :: "int \<Rightarrow> string" where
  "strerror_sample e =
     (if e = 2 then ''No such file or directory''
      else if e = 13 then ''Permission denied''
      else if e = 16 then ''Device or resource busy''
      else if e = 17 then ''File exists''
      else if e = 22 then ''Invalid argument''
      else ''Unknown error'')"

definition os_mounted :: os where
  "os_mounted =
     \<lparr>mkdir_r = (\<lambda>_. Err EEXIST),
      mount_r = (\<lambda>_. Err EBUSY),
      umount_r = (\<lambda>_. Ok),
      rmdir_r = (\<lambda>_. Ok),
      opendir_r = (\<lambda>_. Inr [\<lparr>d_type = 4, d_name = ''.''\<rparr>, \<lparr>d_type = 4, d_name = ''..''\<rparr>,
                            \<lparr>d_type = 8, d_name = ''jobs''\<rparr>, \<lparr>d_type = 8, d_name = ''.hidden''\<rparr>,
                            \<lparr>d_type = 4, d_name = ''sub''\<rparr>, \<lparr>d_type = 8, d_name = ''mail''\<rparr>]),
      closedir_r = Ok,
      mq_open_r = (\<lambda>n. if n = ''/jobs'' then Inr 3 else Inl 2),
      mq_getattr_r = (\<lambda>_. Inr \<lparr>mq_flags = 0, mq_maxmsg = 10, mq_msgsize = 1024, mq_curmsgs = 0\<rparr>),
      mq_close_r = (\<lambda>_. Ok),
      mq_unlink_r = (\<lambda>n. if n = ''/jobs'' then Ok else Err 2),
      strerror = strerror_sample\<rparr>"


definition os_umount_busy :: os where
  "os_umount_busy = os_mounted\<lparr>umount_r := (\<lambda>_. Err EBUSY)\<rparr>"

definition os_umount_einval :: os where
  "os_umount_einval = os_mounted\<lparr>umount_r := (\<lambda>_. Err 22)\<rparr>"

definition os_fresh :: os where
  "os_fresh = os_mounted\<lparr>mkdir_r := (\<lambda>_. Ok), mount_r := (\<lambda>_. Ok)\<rparr>"

definition os_mkdir_denied :: os where
  "os_mkdir_denied = os_mounted\<lparr>mkdir_r := (\<lambda>_. Err 13)\<rparr>"

definition os_mount_denied :: os where
  "os_mount_denied = os_mounted\<lparr>mount_r := (\<lambda>_. Err 1)\<rparr>"

definition os_getattr_fails :: os where
  "os_getattr_fails = os_mounted\<lparr>mq_getattr_r := (\<lambda>_. Inl 9)\<rparr>"

definition close_fails :: "int \<Rightarrow> sysres" where
  "close_fails fd = Err 9"

definition os_no_queues :: os where
  "os_no_queues =
     os_mounted\<lparr>opendir_r := (\<lambda>_. Inr [\<lparr>d_type = 4, d_name = ''.''\<rparr>, \<lparr>d_type = 4, d_name = ''..''\<rparr>])\<rparr>"

section \<open>Auxiliary facts\<close>

lemmas call_defs = sys_def mkdir_def mount_def umount_def rmdir_def opendir_def closedir_def
  mq_open_def mq_getattr_def mq_close_def mq_unlink_def fprintf_def

lemma ensure_calls:
  "calls (snd (ensurePosixQueueFileSystemMounted k w)) =
     calls w @ Mkdir MOUNT_POINT 420 #
       (if mkdir_r k MOUNT_POINT \<in> {Ok, Err EEXIST} then [Mount ''none'' MOUNT_POINT ''mqueue''] else [])"
  by (auto simp: ensurePosixQueueFileSystemMounted_def call_defs split: sysres.splits)

lemma ensure_stdout:
  "stdout (snd (ensurePosixQueueFileSystemMounted k w)) = stdout w"
  by (auto simp: ensurePosixQueueFileSystemMounted_def call_defs split: sysres.splits)

lemma ensure_ok_stderr:
  "fst (ensurePosixQueueFileSystemMounted k w) \<Longrightarrow>
     stderr (snd (ensurePosixQueueFileSystemMounted k w)) = stderr w"
  by (auto simp: ensurePosixQueueFileSystemMounted_def call_defs split: sysres.splits if_splits)

lemma invalid_usage_eq:
  "invalid_usage argv w =
     (- 1, w\<lparr>stderr := stderr w @ ''Error: Invalid usage'' @ NL @ ''Usage: $ sudo ''
               @ (if argv = [] then ''pq'' else argv ! 0)
               @ '' { ls | stat /<queue-name> | unlink /<queue-name> | umount }'' @ NL\<rparr>)"
  by (simp add: invalid_usage_def usage_def fprintf_def)

lemma main_short: "length argv < 2 \<Longrightarrow> main k argv w = invalid_usage argv w"
  by (simp add: main_def Let_def)

lemma main_setup_fails:
  "2 \<le> length argv \<Longrightarrow> \<not> fst (ensurePosixQueueFileSystemMounted k w) \<Longrightarrow>
     main k argv w = (- 1, snd (ensurePosixQueueFileSystemMounted k w))"
  by (cases "ensurePosixQueueFileSystemMounted k w") (simp add: main_def Let_def)

lemma main_ls:
  "2 \<le> length argv \<Longrightarrow> fst (ensurePosixQueueFileSystemMounted k w) \<Longrightarrow> argv ! 1 = ''ls'' \<Longrightarrow>
     main k argv w = ret (listPosixQueues k (snd (ensurePosixQueueFileSystemMounted k w)))"
  by (cases "ensurePosixQueueFileSystemMounted k w") (simp add: main_def Let_def)

lemma main_umount:
  "2 \<le> length argv \<Longrightarrow> fst (ensurePosixQueueFileSystemMounted k w) \<Longrightarrow> argv ! 1 = ''umount'' \<Longrightarrow>
     main k argv w = ret (unmountPosixQueue k (snd (ensurePosixQueueFileSystemMounted k w)))"
  by (cases "ensurePosixQueueFileSystemMounted k w") (simp add: main_def Let_def)

lemma main_stat:
  "3 \<le> length argv \<Longrightarrow> fst (ensurePosixQueueFileSystemMounted k w) \<Longrightarrow> argv ! 1 = ''stat'' \<Longrightarrow>
     main k argv w = ret (printPosixQueueInfo k (argv ! 2) (snd (ensurePosixQueueFileSystemMounted k w)))"
  by (cases "ensurePosixQueueFileSystemMounted k w") (simp add: main_def Let_def)

lemma main_unlink:
  "3 \<le> length argv \<Longrightarrow> fst (ensurePosixQueueFileSystemMounted k w) \<Longrightarrow> argv ! 1 = ''unlink'' \<Longrightarrow>
     main k argv w = ret (unlinkPosixQueue k (argv ! 2) (snd (ensurePosixQueueFileSystemMounted k w)))"
  by (cases "ensurePosixQueueFileSystemMounted k w") (simp add: main_def Let_def)

lemma main_missing_name:
  "length argv = 2 \<Longrightarrow> fst (ensurePosixQueueFileSystemMounted k w) \<Longrightarrow>
   argv ! 1 = ''stat'' \<or> argv ! 1 = ''unlink'' \<Longrightarrow>
     main k argv w = invalid_usage argv (snd (ensurePosixQueueFileSystemMounted k w))"
  by (cases "ensurePosixQueueFileSystemMounted k w") (auto simp: main_def Let_def)

lemma main_unknown:
  "2 \<le> length argv \<Longrightarrow> fst (ensurePosixQueueFileSystemMounted k w) \<Longrightarrow>
   argv ! 1 \<notin> {''ls'', ''umount'', ''stat'', ''unlink''} \<Longrightarrow>
     main k argv w =
       (- 1, fprintf Stderr (''Error: Invalid action '' @ [CHR 0x22] @ argv ! 1 @ [CHR 0x22] @ NL)
               (snd (ensurePosixQueueFileSystemMounted k w)))"
  by (cases "ensurePosixQueueFileSystemMounted k w") (simp add: main_def Let_def)

lemma fst_ret: "fst (ret r) = (if fst r then 0 else - 1)"
  by (simp add: ret_def)

lemma snd_ret: "snd (ret r) = snd r"
  by (simp add: ret_def)

declare readdir_loop.simps [simp del]

lemma readdir_loop_Nil:
  "readdir_loop [] c w = (c, w\<lparr>calls := calls w @ [Readdir]\<rparr>)"
  by (subst readdir_loop.simps) (simp add: readdir_def)

lemma readdir_loop_Cons:
  "readdir_loop (ent # d) c w =
     (if d_type ent = DT_DIR \<or> first_char (d_name ent) = CHR ''.'' then
        readdir_loop d c (w\<lparr>calls := calls w @ [Readdir]\<rparr>)
      else
        readdir_loop d (c + 1) (fprintf Stdout (d_name ent @ NL) (w\<lparr>calls := calls w @ [Readdir]\<rparr>)))"
  by (subst readdir_loop.simps) (simp add: readdir_def)

lemma spec_listed_iff:
  "spec_listed ent \<longleftrightarrow> \<not> (d_type ent = DT_DIR \<or> first_char (d_name ent) = CHR ''.'')"
  by (auto simp: spec_listed_def first_char_def split: list.splits)

lemma readdir_loop_eq:
  "readdir_loop d c w =
     (c + of_nat (length (filter spec_listed d)),
      w\<lparr>calls := calls w @ replicate (Suc (length d)) Readdir,
        stdout := stdout w @ concat (map (\<lambda>n. n @ NL) (map d_name (filter spec_listed d)))\<rparr>)"
proof (induction d arbitrary: c w)
  case Nil
  then show ?case by (simp add: readdir_loop_Nil)
next
  case (Cons ent d)
  show ?case
  proof (cases "spec_listed ent")
    case True
    then show ?thesis
      using spec_listed_iff [of ent]
      by (simp add: readdir_loop_Cons Cons.IH fprintf_def)
  next
    case False
    then show ?thesis
      using spec_listed_iff [of ent]
      by (simp add: readdir_loop_Cons Cons.IH)
  qed
qed

lemma count_zero_iff:
  assumes "n < 2 ^ 31"
  shows "(of_nat n :: 32 word) = 0 \<longleftrightarrow> n = 0"
proof
  assume "(of_nat n :: 32 word) = 0"
  then have "(2 :: nat) ^ 32 dvd n"
    by (simp add: word_of_nat_eq_0_iff)
  moreover have "n < 2 ^ 32"
    using assms by simp
  ultimately show "n = 0"
    by (meson dvd_imp_le not_less zero_less_iff_neq_zero)
next
  assume "n = 0"
  then show "(of_nat n :: 32 word) = 0" by simp
qed

lemma digit_not_newline: "d < 10 \<Longrightarrow> digit d \<noteq> CHR 0x0A"
proof
  assume d: "d < 10" and "digit d = CHR 0x0A"
  then have "of_char (char_of (48 + d) :: char) = (of_char (CHR 0x0A) :: nat)"
    by (simp add: digit_def)
  with d show False by simp
qed

lemma show_nat_no_newline: "CHR 0x0A \<notin> set (show_nat n)"
proof (induction n rule: show_nat.induct)
  case (1 n)
  show ?case
  proof (cases "n < 10")
    case True
    then show ?thesis
      using digit_not_newline [of n] by (subst show_nat.simps) auto
  next
    case False
    then have "CHR 0x0A \<notin> set (show_nat (n div 10))"
      by (rule "1.IH")
    moreover have "digit (n mod 10) \<noteq> CHR 0x0A"
      by (rule digit_not_newline) simp
    ultimately show ?thesis
      using False by (subst show_nat.simps) auto
  qed
qed

lemma fmt_ld_lines: "count_list (fmt_ld x) (CHR 0x0A) = 0"
  using show_nat_no_newline by (simp add: fmt_ld_def del: show_nat.simps)

lemmas scenario_defs = w_init_def strerror_sample_def os_mounted_def os_umount_busy_def
  os_umount_einval_def os_fresh_def os_mkdir_denied_def os_mount_denied_def
  os_getattr_fails_def close_fails_def os_no_queues_def
  EBUSY_def EEXIST_def MOUNT_POINT_def DT_DIR_def NL_def

lemmas run_defs = ensurePosixQueueFileSystemMounted_def unmountPosixQueue_def
  listPosixQueues_def printPosixQueueInfo_def unlinkPosixQueue_def usage_def
  invalid_usage_def ret_def main_def first_char_def call_defs Let_def

section \<open>EnsureMounted\<close>

text \<open>
  Claim C4. \<open>ensurePosixQueueFileSystemMounted\<close> returns true exactly when \<open>mkdir\<close>
  succeeds or fails with EEXIST and \<open>mount\<close> succeeds or fails with EBUSY. Any other
  failure of \<open>mkdir\<close> is reported on the error stream with its reason and makes the
  function return false after that single call, so \<open>mount\<close> is not attempted; any
  other failure of \<open>mount\<close> is reported with its reason and makes it return false.
\<close>

theorem ensure_mounted_exact:
  "(fst (ensurePosixQueueFileSystemMounted k w) \<longleftrightarrow>
      mkdir_r k MOUNT_POINT \<in> {Ok, Err EEXIST} \<and> mount_r k MOUNT_POINT \<in> {Ok, Err EBUSY})
   \<and> (\<forall>e. mkdir_r k MOUNT_POINT = Err e \<and> e \<noteq> EEXIST \<longrightarrow>
          ensurePosixQueueFileSystemMounted k w =
            (False, w\<lparr>errno := e, calls := calls w @ [Mkdir MOUNT_POINT 420],
                      stderr := stderr w @ ''Error: Couldn't create posix filesystem mount point ''
                                  @ MOUNT_POINT @ '' ('' @ strerror k e @ '')'' @ NL\<rparr>))
   \<and> (\<forall>e. mkdir_r k MOUNT_POINT \<in> {Ok, Err EEXIST} \<and> mount_r k MOUNT_POINT = Err e \<and> e \<noteq> EBUSY \<longrightarrow>
          \<not> fst (ensurePosixQueueFileSystemMounted k w) \<and>
          calls (snd (ensurePosixQueueFileSystemMounted k w)) =
            calls w @ [Mkdir MOUNT_POINT 420, Mount ''none'' MOUNT_POINT ''mqueue''] \<and>
          stderr (snd (ensurePosixQueueFileSystemMounted k w)) =
            stderr w @ ''Error: Couldn't mount the posix queue filesystem ('' @ strerror k e @ '')'' @ NL)"
  by (auto simp: ensurePosixQueueFileSystemMounted_def call_defs split: sysres.splits)

text \<open>
  The theorem at three systems: one where both failures are the tolerated ones, one where
  \<open>mkdir\<close> is refused (errno 13) and one where \<open>mount\<close> is refused (errno 1).
\<close>

theorem ensure_mounted_exact_witness:
  "fst (ensurePosixQueueFileSystemMounted os_mounted w_init)
   \<and> ensurePosixQueueFileSystemMounted os_mkdir_denied w_init =
       (False, \<lparr>errno = 13, calls = [Mkdir ''/dev/mqueue'' 420], stdout = [],
                stderr = ''Error: Couldn't create posix filesystem mount point /dev/mqueue (Permission denied)'' @ NL\<rparr>)
   \<and> \<not> fst (ensurePosixQueueFileSystemMounted os_mount_denied w_init)"
  using ensure_mounted_exact [of os_mounted w_init]
        ensure_mounted_exact [of os_mkdir_denied w_init]
        ensure_mounted_exact [of os_mount_denied w_init]
  by (simp add: scenario_defs)

section \<open>Unmount\<close>

text \<open>
  The statement that a busy filesystem makes \<open>unmountPosixQueue\<close> report success and the
  \<open>umount\<close> subcommand exit 0 does not hold: on a system whose \<open>umount\<close> fails with
  EBUSY the function returns false and \<open>main\<close> returns -1.
\<close>

theorem umount_busy_counterexample:
  "umount_r os_umount_busy MOUNT_POINT = Err EBUSY
   \<and> \<not> fst (unmountPosixQueue os_umount_busy w_init)
   \<and> fst (main os_umount_busy [''pq'', ''umount''] w_init) = - 1
   \<and> fst (main os_umount_busy [''pq'', ''umount''] w_init) \<noteq> 0"
  by (simp add: scenario_defs run_defs)

text \<open>
  Claim C1, as the code has it. When \<open>umount\<close> fails with EBUSY, \<open>unmountPosixQueue\<close>
  writes the diagnostic with the reason to the error stream and returns false, having
  issued \<open>umount\<close> and nothing else: the mount-point directory is left in place, no
  \<open>rmdir\<close> is attempted. The \<open>umount\<close> subcommand then exits with -1; when the mounting
  step succeeded, the only call that follows it is that \<open>umount\<close>.
\<close>

theorem umount_busy_is_failure:
  assumes "umount_r k MOUNT_POINT = Err EBUSY"
  shows "unmountPosixQueue k w =
           (False, w\<lparr>errno := EBUSY, calls := calls w @ [Umount MOUNT_POINT],
                     stderr := stderr w @ ''Error: Couldn't unmount the posix queue filesystem (''
                                 @ strerror k EBUSY @ '')'' @ NL\<rparr>)
         \<and> (\<forall>argv. 2 \<le> length argv \<and> argv ! 1 = ''umount'' \<longrightarrow>
               fst (main k argv w) = - 1 \<and>
               (fst (ensurePosixQueueFileSystemMounted k w) \<longrightarrow>
                  calls (snd (main k argv w)) =
                    calls (snd (ensurePosixQueueFileSystemMounted k w)) @ [Umount MOUNT_POINT]))"
proof -
  have u: "unmountPosixQueue k v =
           (False, v\<lparr>errno := EBUSY, calls := calls v @ [Umount MOUNT_POINT],
                     stderr := stderr v @ ''Error: Couldn't unmount the posix queue filesystem (''
                                 @ strerror k EBUSY @ '')'' @ NL\<rparr>)" for v
    using assms by (simp add: unmountPosixQueue_def call_defs)
  have "fst (main k argv w) = - 1 \<and>
        (fst (ensurePosixQueueFileSystemMounted k w) \<longrightarrow>
           calls (snd (main k argv w)) =
             calls (snd (ensurePosixQueueFileSystemMounted k w)) @ [Umount MOUNT_POINT])"
    if "2 \<le> length argv" "argv ! 1 = ''umount''" for argv
  proof (cases "fst (ensurePosixQueueFileSystemMounted k w)")
    case True
    with that show ?thesis by (simp add: main_umount u ret_def)
  next
    case False
    with that show ?thesis by (simp add: main_setup_fails)
  qed
  with u show ?thesis by blast
qed

text \<open>The theorem on the system whose \<open>umount\<close> answers EBUSY.\<close>

theorem umount_busy_is_failure_witness:
  "umount_r os_umount_busy MOUNT_POINT = Err EBUSY
   \<and> unmountPosixQueue os_umount_busy w_init =
       (False, \<lparr>errno = 16, calls = [Umount ''/dev/mqueue''], stdout = [],
                stderr = ''Error: Couldn't unmount the posix queue filesystem (Device or resource busy)'' @ NL\<rparr>)
   \<and> fst (main os_umount_busy [''pq'', ''umount''] w_init) = - 1"
proof -
  have h: "umount_r os_umount_busy MOUNT_POINT = Err EBUSY"
    by (simp add: scenario_defs)
  have "(2::nat) \<le> length [''pq'', ''umount''] \<and> [''pq'', ''umount''] ! 1 = ''umount''"
    by simp
  with umount_busy_is_failure [OF h, of w_init]
  have "fst (main os_umount_busy [''pq'', ''umount''] w_init) = - 1"
    by blast
  with h umount_busy_is_failure [OF h, of w_init] show ?thesis
    by (simp add: scenario_defs)
qed

text \<open>
  The statement that any other failure of \<open>umount\<close> is fatal and keeps \<open>rmdir\<close> from
  being attempted does not hold: with \<open>umount\<close> failing with errno 22, \<open>rmdir\<close> is
  called, the function returns true and the subcommand exits 0.
\<close>

theorem umount_other_failure_counterexample:
  "umount_r os_umount_einval MOUNT_POINT = Err 22 \<and> 22 \<noteq> EBUSY
   \<and> fst (unmountPosixQueue os_umount_einval w_init)
   \<and> calls (snd (unmountPosixQueue os_umount_einval w_init)) =
       [Umount MOUNT_POINT, Rmdir MOUNT_POINT]
   \<and> fst (main os_umount_einval [''pq'', ''umount''] w_init) = 0"
  by (simp add: scenario_defs run_defs)

text \<open>
  Claim C2, as the code has it. \<open>unmountPosixQueue\<close> attempts \<open>rmdir\<close> exactly when
  \<open>umount\<close> did not fail with EBUSY, that is when it succeeded or failed for any other
  reason. In that case the calls are \<open>umount\<close> then \<open>rmdir\<close>, the result is true
  exactly when \<open>rmdir\<close> succeeds or fails with EBUSY, and a true result comes with
  nothing written to the error stream: a failure of \<open>umount\<close> other than EBUSY is
  neither reported nor fatal.
\<close>

theorem rmdir_unless_umount_busy:
  "(Rmdir MOUNT_POINT \<in> set (drop (length (calls w)) (calls (snd (unmountPosixQueue k w))))
      \<longleftrightarrow> umount_r k MOUNT_POINT \<noteq> Err EBUSY)
   \<and> (umount_r k MOUNT_POINT \<noteq> Err EBUSY \<longrightarrow>
        calls (snd (unmountPosixQueue k w)) = calls w @ [Umount MOUNT_POINT, Rmdir MOUNT_POINT] \<and>
        (fst (unmountPosixQueue k w) \<longleftrightarrow> rmdir_r k MOUNT_POINT \<in> {Ok, Err EBUSY}) \<and>
        (fst (unmountPosixQueue k w) \<longrightarrow> stderr (snd (unmountPosixQueue k w)) = stderr w))"
  by (auto simp: unmountPosixQueue_def call_defs split: sysres.splits)

text \<open>
  The theorem on the system whose \<open>umount\<close> answers errno 22, and on the one where it
  answers EBUSY.
\<close>

theorem rmdir_unless_umount_busy_witness:
  "umount_r os_umount_einval MOUNT_POINT \<noteq> Err EBUSY
   \<and> calls (snd (unmountPosixQueue os_umount_einval w_init)) =
       [Umount ''/dev/mqueue'', Rmdir ''/dev/mqueue'']
   \<and> fst (unmountPosixQueue os_umount_einval w_init)
   \<and> stderr (snd (unmountPosixQueue os_umount_einval w_init)) = []
   \<and> Rmdir MOUNT_POINT \<notin> set (calls (snd (unmountPosixQueue os_umount_busy w_init)))"
proof -
  have h: "umount_r os_umount_einval MOUNT_POINT \<noteq> Err EBUSY"
    by (simp add: scenario_defs)
  have b: "\<not> umount_r os_umount_busy MOUNT_POINT \<noteq> Err EBUSY"
    by (simp add: scenario_defs)
  show ?thesis
    using h b rmdir_unless_umount_busy [of w_init os_umount_einval]
      rmdir_unless_umount_busy [of w_init os_umount_busy]
    by (simp add: scenario_defs)
qed

section \<open>Usage errors\<close>

text \<open>
  The statement that \<open>stat\<close> or \<open>unlink\<close> without a queue name exits before any call
  to the system does not hold: \<open>main\<close> mounts first. On a fresh system both the
  directory creation and the mount are issued, and where the directory cannot be created
  the error stream carries that diagnostic and no usage message.
\<close>

theorem missing_argument_counterexample:
  "length [''pq'', ''stat''] = 2
   \<and> calls (snd (main os_fresh [''pq'', ''stat''] w_init)) =
       [Mkdir ''/dev/mqueue'' 420, Mount ''none'' ''/dev/mqueue'' ''mqueue'']
   \<and> calls (snd (main os_fresh [''pq'', ''unlink''] w_init)) =
       [Mkdir ''/dev/mqueue'' 420, Mount ''none'' ''/dev/mqueue'' ''mqueue'']
   \<and> stderr (snd (main os_mkdir_denied [''pq'', ''stat''] w_init)) =
       ''Error: Couldn't create posix filesystem mount point /dev/mqueue (Permission denied)'' @ NL"
  by (simp add: scenario_defs run_defs)

text \<open>
  Claim C3, as the code has it. With fewer than two arguments \<open>main\<close> writes the usage
  message to the error stream and returns -1, and nothing else changes: no call is
  issued. With \<open>stat\<close> or \<open>unlink\<close> and no queue name, \<open>main\<close> first runs
  \<open>ensurePosixQueueFileSystemMounted\<close>; the calls issued are exactly the ones of that
  step (\<open>mkdir\<close>, then \<open>mount\<close> unless \<open>mkdir\<close> failed fatally), so no queue
  operation is performed; nothing is written to standard output; the result is -1; the
  usage message is written to the error stream when the mounting step succeeded, and
  otherwise the run ends in the state that step left.
\<close>

theorem missing_argument_behaviour:
  "(length argv < 2 \<longrightarrow>
      main k argv w =
        (- 1, w\<lparr>stderr := stderr w @ ''Error: Invalid usage'' @ NL @ ''Usage: $ sudo ''
                  @ (if argv = [] then ''pq'' else argv ! 0)
                  @ '' { ls | stat /<queue-name> | unlink /<queue-name> | umount }'' @ NL\<rparr>))
   \<and> (length argv = 2 \<and> argv ! 1 \<in> {''stat'', ''unlink''} \<longrightarrow>
        fst (main k argv w) = - 1 \<and>
        calls (snd (main k argv w)) =
          calls w @ Mkdir MOUNT_POINT 420 #
            (if mkdir_r k MOUNT_POINT \<in> {Ok, Err EEXIST}
             then [Mount ''none'' MOUNT_POINT ''mqueue''] else []) \<and>
        stdout (snd (main k argv w)) = stdout w \<and>
        (fst (ensurePosixQueueFileSystemMounted k w) \<longrightarrow>
           stderr (snd (main k argv w)) =
             stderr w @ ''Error: Invalid usage'' @ NL @ ''Usage: $ sudo '' @ argv ! 0
               @ '' { ls | stat /<queue-name> | unlink /<queue-name> | umount }'' @ NL) \<and>
        (\<not> fst (ensurePosixQueueFileSystemMounted k w) \<longrightarrow>
           snd (main k argv w) = snd (ensurePosixQueueFileSystemMounted k w)))"
proof (intro conjI impI)
  assume "length argv < 2"
  then show "main k argv w =
        (- 1, w\<lparr>stderr := stderr w @ ''Error: Invalid usage'' @ NL @ ''Usage: $ sudo ''
                  @ (if argv = [] then ''pq'' else argv ! 0)
                  @ '' { ls | stat /<queue-name> | unlink /<queue-name> | umount }'' @ NL\<rparr>)"
    by (simp only: main_short invalid_usage_eq)
next
  assume a: "length argv = 2 \<and> argv ! 1 \<in> {''stat'', ''unlink''}"
  then have ne: "argv \<noteq> []" by auto
  let ?E = "ensurePosixQueueFileSystemMounted k w"
  have m: "main k argv w = (if fst ?E then invalid_usage argv (snd ?E) else (- 1, snd ?E))"
    using a by (auto simp: main_missing_name main_setup_fails)
  show "fst (main k argv w) = - 1"
    by (simp add: m invalid_usage_eq)
  show "calls (snd (main k argv w)) =
          calls w @ Mkdir MOUNT_POINT 420 #
            (if mkdir_r k MOUNT_POINT \<in> {Ok, Err EEXIST}
             then [Mount ''none'' MOUNT_POINT ''mqueue''] else [])"
    unfolding ensure_calls [symmetric] by (simp add: m invalid_usage_eq)
  show "stdout (snd (main k argv w)) = stdout w"
    unfolding ensure_stdout [of k w, symmetric] by (simp add: m invalid_usage_eq)
  show "stderr (snd (main k argv w)) =
             stderr w @ ''Error: Invalid usage'' @ NL @ ''Usage: $ sudo '' @ argv ! 0
               @ '' { ls | stat /<queue-name> | unlink /<queue-name> | umount }'' @ NL"
    if "fst ?E"
    using that ne by (simp add: m invalid_usage_eq ensure_ok_stderr)
  show "snd (main k argv w) = snd ?E" if "\<not> fst ?E"
    using that by (simp add: m)
qed

text \<open>
  The theorem for an empty argument vector, for \<open>stat\<close> without a name on a fresh
  system and for \<open>unlink\<close> without a name where \<open>mkdir\<close> is refused.
\<close>

theorem missing_argument_behaviour_witness:
  "main os_fresh [] w_init =
     (- 1, \<lparr>errno = 0, calls = [], stdout = [],
            stderr = ''Error: Invalid usage'' @ NL
              @ ''Usage: $ sudo pq { ls | stat /<queue-name> | unlink /<queue-name> | umount }'' @ NL\<rparr>)
   \<and> fst (main os_fresh [''./pq'', ''stat''] w_init) = - 1
   \<and> calls (snd (main os_fresh [''./pq'', ''stat''] w_init)) =
       [Mkdir ''/dev/mqueue'' 420, Mount ''none'' ''/dev/mqueue'' ''mqueue'']
   \<and> stderr (snd (main os_fresh [''./pq'', ''stat''] w_init)) =
       ''Error: Invalid usage'' @ NL
         @ ''Usage: $ sudo ./pq { ls | stat /<queue-name> | unlink /<queue-name> | umount }'' @ NL
   \<and> calls (snd (main os_mkdir_denied [''./pq'', ''unlink''] w_init)) = [Mkdir ''/dev/mqueue'' 420]"
proof -
  have e: "fst (ensurePosixQueueFileSystemMounted os_fresh w_init)"
    by (simp add: scenario_defs run_defs)
  show ?thesis
    using e missing_argument_behaviour [of "[]" os_fresh w_init]
      missing_argument_behaviour [of "[''./pq'', ''stat'']" os_fresh w_init]
      missing_argument_behaviour [of "[''./pq'', ''unlink'']" os_mkdir_denied w_init]
    by (simp add: scenario_defs)
qed

section \<open>Stat\<close>

text \<open>
  Claim C5. Whenever \<open>mq_open\<close> succeeds, the calls \<open>printPosixQueueInfo\<close> has issued
  when it returns are \<open>mq_open\<close>, \<open>mq_getattr\<close> on the descriptor and \<open>mq_close\<close> on
  the descriptor, in this order, whether or not the attribute query succeeded: the
  handle is closed on every path, as the last thing the function does.
\<close>

theorem stat_closes_handle:
  assumes "mq_open_r k name = Inr fd"
  shows "calls (snd (printPosixQueueInfo k name w)) =
           calls w @ [MqOpen name, MqGetattr (int fd), MqClose (int fd)]"
  using assms
  by (auto simp: printPosixQueueInfo_def call_defs Let_def split: sum.splits sysres.splits)

text \<open>The theorem where the attribute query fails (errno 9), and where it succeeds.\<close>

theorem stat_closes_handle_witness:
  "mq_open_r os_getattr_fails ''/jobs'' = Inr 3
   \<and> mq_getattr_r os_getattr_fails 3 = Inl 9
   \<and> calls (snd (printPosixQueueInfo os_getattr_fails ''/jobs'' w_init)) =
       [MqOpen ''/jobs'', MqGetattr 3, MqClose 3]
   \<and> calls (snd (printPosixQueueInfo os_mounted ''/jobs'' w_init)) =
       [MqOpen ''/jobs'', MqGetattr 3, MqClose 3]"
proof -
  have h: "mq_open_r os_getattr_fails ''/jobs'' = Inr 3"
    and g: "mq_getattr_r os_getattr_fails 3 = Inl 9"
    and h': "mq_open_r os_mounted ''/jobs'' = Inr 3"
    by (simp_all add: scenario_defs)
  show ?thesis
    using h g stat_closes_handle [OF h, of w_init] stat_closes_handle [OF h', of w_init]
    by (simp add: w_init_def)
qed

text \<open>
  Claim C7. When the open and the attribute query succeed, \<open>printPosixQueueInfo\<close> returns
  true and appends to standard output the lines \<open>flags\<close>, \<open>maxmsg\<close>, \<open>msgsize\<close>
  and \<open>curmsgs\<close>, in this order, each with the value of the queried attribute in
  decimal; the text holds exactly four line ends, and nothing goes to the error stream.
\<close>

theorem stat_prints_four_lines:
  assumes "mq_open_r k name = Inr fd"
      and "mq_getattr_r k (int fd) = Inr a"
  shows "fst (printPosixQueueInfo k name w)
         \<and> stdout (snd (printPosixQueueInfo k name w)) =
             stdout w @ ''flags   '' @ fmt_ld (mq_flags a) @ NL
                      @ ''maxmsg  '' @ fmt_ld (mq_maxmsg a) @ NL
                      @ ''msgsize '' @ fmt_ld (mq_msgsize a) @ NL
                      @ ''curmsgs '' @ fmt_ld (mq_curmsgs a) @ NL
         \<and> count_list (drop (length (stdout w)) (stdout (snd (printPosixQueueInfo k name w))))
              (CHR 0x0A) = 4
         \<and> stderr (snd (printPosixQueueInfo k name w)) = stderr w"
  using assms
  by (auto simp: printPosixQueueInfo_def call_defs Let_def NL_def fmt_ld_lines
           split: sysres.splits)

text \<open>The report for a queue with room for 10 messages of 1024 bytes, and none queued.\<close>

theorem stat_prints_four_lines_witness:
  "stdout (snd (printPosixQueueInfo os_mounted ''/jobs'' w_init)) =
     ''flags   0'' @ NL @ ''maxmsg  10'' @ NL @ ''msgsize 1024'' @ NL @ ''curmsgs 0'' @ NL"
proof -
  have h: "mq_open_r os_mounted ''/jobs'' = Inr 3"
    and g: "mq_getattr_r os_mounted (int 3) =
              Inr \<lparr>mq_flags = 0, mq_maxmsg = 10, mq_msgsize = 1024, mq_curmsgs = 0\<rparr>"
    by (simp_all add: scenario_defs)
  have "fmt_ld 0 = ''0''" "fmt_ld 10 = ''10''" "fmt_ld 1024 = ''1024''"
    by code_simp+
  then show ?thesis
    using stat_prints_four_lines [OF h g, of w_init]
    by (simp add: w_init_def)
qed

text \<open>
  Claim C8. When \<open>mq_open\<close> fails, \<open>printPosixQueueInfo\<close> writes the diagnostic with the
  queue name and the reason to the error stream, writes nothing to standard output,
  issues no other call and returns false; \<open>main\<close>, called with \<open>stat\<close> and that name,
  returns -1 and leaves standard output as it was.
\<close>

theorem stat_open_failure:
  assumes "mq_open_r k name = Inl e"
  shows "printPosixQueueInfo k name w =
           (False, w\<lparr>errno := e, calls := calls w @ [MqOpen name],
                     stderr := stderr w @ ''Error: Couldn't open queue '' @ name
                                 @ '' ('' @ strerror k e @ '')'' @ NL\<rparr>)
         \<and> (\<forall>argv. 3 \<le> length argv \<and> argv ! 1 = ''stat'' \<and> argv ! 2 = name \<longrightarrow>
               fst (main k argv w) = - 1 \<and> stdout (snd (main k argv w)) = stdout w)"
proof -
  have p: "printPosixQueueInfo k name v =
           (False, v\<lparr>errno := e, calls := calls v @ [MqOpen name],
                     stderr := stderr v @ ''Error: Couldn't open queue '' @ name
                                 @ '' ('' @ strerror k e @ '')'' @ NL\<rparr>)" for v
    using assms by (simp add: printPosixQueueInfo_def call_defs)
  have "fst (main k argv w) = - 1 \<and> stdout (snd (main k argv w)) = stdout w"
    if "3 \<le> length argv" "argv ! 1 = ''stat''" "argv ! 2 = name" for argv
  proof (cases "fst (ensurePosixQueueFileSystemMounted k w)")
    case True
    with that show ?thesis
      by (simp add: main_stat p ret_def ensure_stdout)
  next
    case False
    with that show ?thesis
      by (simp add: main_setup_fails ensure_stdout)
  qed
  with p show ?thesis by blast
qed

text \<open>The theorem for a queue that does not exist (errno 2).\<close>

theorem stat_open_failure_witness:
  "mq_open_r os_mounted ''/nope'' = Inl 2
   \<and> printPosixQueueInfo os_mounted ''/nope'' w_init =
       (False, \<lparr>errno = 2, calls = [MqOpen ''/nope''], stdout = [],
                stderr = ''Error: Couldn't open queue /nope (No such file or directory)'' @ NL\<rparr>)
   \<and> fst (main os_mounted [''pq'', ''stat'', ''/nope''] w_init) = - 1
   \<and> stdout (snd (main os_mounted [''pq'', ''stat'', ''/nope''] w_init)) = []"
proof -
  have h: "mq_open_r os_mounted ''/nope'' = Inl 2"
    by (simp add: scenario_defs)
  have "(3::nat) \<le> length [''pq'', ''stat'', ''/nope''] \<and> [''pq'', ''stat'', ''/nope''] ! 1 = ''stat''
        \<and> [''pq'', ''stat'', ''/nope''] ! 2 = ''/nope''"
    by simp
  with stat_open_failure [OF h, of w_init]
  have "fst (main os_mounted [''pq'', ''stat'', ''/nope''] w_init) = - 1
        \<and> stdout (snd (main os_mounted [''pq'', ''stat'', ''/nope''] w_init)) = stdout w_init"
    by blast
  with h stat_open_failure [OF h, of w_init] show ?thesis
    by (simp add: scenario_defs)
qed

text \<open>
  Claim C9. The result of \<open>printPosixQueueInfo\<close> and what it writes to either stream are
  the same whatever \<open>mq_close\<close> answers; in particular it returns true as soon as the
  open and the attribute query have succeeded.
\<close>

theorem stat_result_ignores_close:
  "(mq_open_r k name = Inr fd \<and> mq_getattr_r k (int fd) = Inr a \<longrightarrow>
      fst (printPosixQueueInfo (k\<lparr>mq_close_r := c\<rparr>) name w))
   \<and> fst (printPosixQueueInfo (k\<lparr>mq_close_r := c\<rparr>) name w) = fst (printPosixQueueInfo k name w)
   \<and> stdout (snd (printPosixQueueInfo (k\<lparr>mq_close_r := c\<rparr>) name w)) =
       stdout (snd (printPosixQueueInfo k name w))
   \<and> stderr (snd (printPosixQueueInfo (k\<lparr>mq_close_r := c\<rparr>) name w)) =
       stderr (snd (printPosixQueueInfo k name w))"
  by (auto simp: printPosixQueueInfo_def call_defs Let_def split: sum.splits sysres.splits)

text \<open>The theorem with an \<open>mq_close\<close> that always fails (errno 9).\<close>

theorem stat_result_ignores_close_witness:
  "mq_open_r os_mounted ''/jobs'' = Inr 3
   \<and> fst (printPosixQueueInfo (os_mounted\<lparr>mq_close_r := close_fails\<rparr>) ''/jobs'' w_init)
   \<and> fst (printPosixQueueInfo os_mounted ''/jobs'' w_init)"
proof -
  have h: "mq_open_r os_mounted ''/jobs'' = Inr 3 \<and>
           mq_getattr_r os_mounted (int 3) =
              Inr \<lparr>mq_flags = 0, mq_maxmsg = 10, mq_msgsize = 1024, mq_curmsgs = 0\<rparr>"
    by (simp add: scenario_defs)
  show ?thesis
    using h stat_result_ignores_close [of os_mounted "''/jobs''" 3
        "\<lparr>mq_flags = 0, mq_maxmsg = 10, mq_msgsize = 1024, mq_curmsgs = 0\<rparr>" close_fails w_init]
    by blast
qed

section \<open>List\<close>

text \<open>
  Claim C6. When the directory can be opened, \<open>listPosixQueues\<close> returns true and appends
  to standard output what the specification describes: the names of the entries that are
  neither sub-directories nor begin with a dot, one per line, in the order of the
  enumeration, or the placeholder line alone when no entry remains. The error stream is
  untouched. The number of listed entries is taken to fit the \<open>int\<close> counter, that is
  to stay below \<open>2 ^ 31\<close>; past that bound \<open>count++\<close> overflows.
\<close>

theorem list_emits_queue_names:
  assumes "opendir_r k MOUNT_POINT = Inr ents"
      and "length (filter spec_listed ents) < 2 ^ 31"
  shows "fst (listPosixQueues k w)
         \<and> stdout (snd (listPosixQueues k w)) = stdout w @ spec_list_output ents
         \<and> stderr (snd (listPosixQueues k w)) = stderr w"
  using assms count_zero_iff [OF assms(2)]
  by (auto simp: listPosixQueues_def opendir_def closedir_def sys_def fprintf_def
        readdir_loop_eq spec_list_output_def Let_def split: sysres.splits)

text \<open>
  The theorem on a directory with two queues among six entries, and on a directory that
  holds only \<open>.\<close> and \<open>..\<close>.
\<close>

theorem list_emits_queue_names_witness:
  "stdout (snd (listPosixQueues os_mounted w_init)) = ''jobs'' @ NL @ ''mail'' @ NL
   \<and> stdout (snd (listPosixQueues os_no_queues w_init)) = ''(No posix queues)'' @ NL"
proof -
  have a: "opendir_r os_mounted MOUNT_POINT =
             Inr [\<lparr>d_type = 4, d_name = ''.''\<rparr>, \<lparr>d_type = 4, d_name = ''..''\<rparr>,
                  \<lparr>d_type = 8, d_name = ''jobs''\<rparr>, \<lparr>d_type = 8, d_name = ''.hidden''\<rparr>,
                  \<lparr>d_type = 4, d_name = ''sub''\<rparr>, \<lparr>d_type = 8, d_name = ''mail''\<rparr>]"
    and b: "opendir_r os_no_queues MOUNT_POINT =
             Inr [\<lparr>d_type = 4, d_name = ''.''\<rparr>, \<lparr>d_type = 4, d_name = ''..''\<rparr>]"
    by (simp_all add: scenario_defs)
  show ?thesis
    using list_emits_queue_names [OF a, of w_init] list_emits_queue_names [OF b, of w_init]
    by (simp add: spec_listed_def spec_list_output_def scenario_defs)
qed

section \<open>Exit codes\<close>

text \<open>
  Claim C10. \<open>main\<close> returns 0 or -1 and nothing else, so every failing run returns the
  same value -1: a run with too few arguments, a run whose mounting step fails, an
  unknown command, a \<open>stat\<close> or \<open>unlink\<close> without a queue name, and a run whose
  operation (list, unmount, stat, unlink) reports failure.
\<close>

theorem failing_exit_is_minus_one:
  "fst (main k argv w) \<in> {0, - 1}
   \<and> (length argv < 2 \<longrightarrow> fst (main k argv w) = - 1)
   \<and> (2 \<le> length argv \<and> \<not> fst (ensurePosixQueueFileSystemMounted k w) \<longrightarrow>
        fst (main k argv w) = - 1)
   \<and> (2 \<le> length argv \<and> argv ! 1 \<notin> {''ls'', ''umount'', ''stat'', ''unlink''} \<longrightarrow>
        fst (main k argv w) = - 1)
   \<and> (length argv = 2 \<and> argv ! 1 \<in> {''stat'', ''unlink''} \<longrightarrow> fst (main k argv w) = - 1)
   \<and> (2 \<le> length argv \<and> fst (ensurePosixQueueFileSystemMounted k w) \<longrightarrow>
        (argv ! 1 = ''ls'' \<and>
           \<not> fst (listPosixQueues k (snd (ensurePosixQueueFileSystemMounted k w))) \<longrightarrow>
           fst (main k argv w) = - 1) \<and>
        (argv ! 1 = ''umount'' \<and>
           \<not> fst (unmountPosixQueue k (snd (ensurePosixQueueFileSystemMounted k w))) \<longrightarrow>
           fst (main k argv w) = - 1) \<and>
        (argv ! 1 = ''stat'' \<and> 3 \<le> length argv \<and>
           \<not> fst (printPosixQueueInfo k (argv ! 2) (snd (ensurePosixQueueFileSystemMounted k w))) \<longrightarrow>
           fst (main k argv w) = - 1) \<and>
        (argv ! 1 = ''unlink'' \<and> 3 \<le> length argv \<and>
           \<not> fst (unlinkPosixQueue k (argv ! 2) (snd (ensurePosixQueueFileSystemMounted k w))) \<longrightarrow>
           fst (main k argv w) = - 1))"
proof -
  let ?E = "ensurePosixQueueFileSystemMounted k w"
  have short: "fst (main k argv w) = - 1" if "length argv < 2"
    using that by (simp add: main_short invalid_usage_eq)
  have nomount: "fst (main k argv w) = - 1" if "2 \<le> length argv" "\<not> fst ?E"
    using that by (simp add: main_setup_fails)
  have unknown: "fst (main k argv w) = - 1"
    if "2 \<le> length argv" "argv ! 1 \<notin> {''ls'', ''umount'', ''stat'', ''unlink''}"
    using that nomount by (cases "fst ?E") (simp_all add: main_unknown)
  have missing: "fst (main k argv w) = - 1"
    if "length argv = 2" "argv ! 1 \<in> {''stat'', ''unlink''}"
    using that nomount by (cases "fst ?E") (auto simp: main_missing_name invalid_usage_eq)
  have both: "fst (main k argv w) \<in> {0, - 1}"
  proof (cases "length argv < 2")
    case True
    then show ?thesis by (simp add: short)
  next
    case long: False
    show ?thesis
    proof (cases "fst ?E")
      case False
      with long show ?thesis by (simp add: nomount)
    next
      case True
      consider "argv ! 1 = ''ls''" | "argv ! 1 = ''umount''"
        | "argv ! 1 = ''stat''" "length argv = 2" | "argv ! 1 = ''stat''" "3 \<le> length argv"
        | "argv ! 1 = ''unlink''" "length argv = 2" | "argv ! 1 = ''unlink''" "3 \<le> length argv"
        | "argv ! 1 \<notin> {''ls'', ''umount'', ''stat'', ''unlink''}"
        using long by fastforce
      then show ?thesis
      proof cases
        case 1
        with long True show ?thesis by (simp add: main_ls fst_ret)
      next
        case 2
        with long True show ?thesis by (simp add: main_umount fst_ret)
      next
        case 3
        then show ?thesis by (simp add: missing)
      next
        case 4
        with True show ?thesis by (simp add: main_stat fst_ret)
      next
        case 5
        then show ?thesis by (simp add: missing)
      next
        case 6
        with True show ?thesis by (simp add: main_unlink fst_ret)
      next
        case 7
        with long show ?thesis by (simp add: unknown)
      qed
    qed
  qed
  have ops: "fst (main k argv w) = - 1"
    if "2 \<le> length argv" "fst ?E"
       "argv ! 1 = ''ls'' \<and> \<not> fst (listPosixQueues k (snd ?E))
        \<or> argv ! 1 = ''umount'' \<and> \<not> fst (unmountPosixQueue k (snd ?E))
        \<or> argv ! 1 = ''stat'' \<and> 3 \<le> length argv \<and> \<not> fst (printPosixQueueInfo k (argv ! 2) (snd ?E))
        \<or> argv ! 1 = ''unlink'' \<and> 3 \<le> length argv \<and> \<not> fst (unlinkPosixQueue k (argv ! 2) (snd ?E))"
    using that by (auto simp: main_ls main_umount main_stat main_unlink fst_ret)
  from both short nomount unknown missing ops show ?thesis by blast
qed

text \<open>
  The theorem for no arguments, an unknown command, a refused \<open>mkdir\<close>, \<open>unlink\<close>
  without a name and \<open>stat\<close> on a queue that does not exist.
\<close>

theorem failing_exit_is_minus_one_witness:
  "fst (main os_mounted [] w_init) = - 1
   \<and> fst (main os_mounted [''pq'', ''frob''] w_init) = - 1
   \<and> fst (main os_mkdir_denied [''pq'', ''ls''] w_init) = - 1
   \<and> fst (main os_mounted [''pq'', ''unlink''] w_init) = - 1
   \<and> fst (main os_mounted [''pq'', ''stat'', ''/nope''] w_init) = - 1"
proof -
  have a: "\<not> fst (ensurePosixQueueFileSystemMounted os_mkdir_denied w_init)"
    and b: "fst (ensurePosixQueueFileSystemMounted os_mounted w_init)"
    and c: "\<not> fst (printPosixQueueInfo os_mounted ''/nope''
                   (snd (ensurePosixQueueFileSystemMounted os_mounted w_init)))"
    by (simp_all add: scenario_defs run_defs)
  show ?thesis
    using a b c failing_exit_is_minus_one [of os_mounted "[]" w_init]
      failing_exit_is_minus_one [of os_mounted "[''pq'', ''frob'']" w_init]
      failing_exit_is_minus_one [of os_mkdir_denied "[''pq'', ''ls'']" w_init]
      failing_exit_is_minus_one [of os_mounted "[''pq'', ''unlink'']" w_init]
      failing_exit_is_minus_one [of os_mounted "[''pq'', ''stat'', ''/nope'']" w_init]
    by simp
qed

end
